theory Spec2Isabelle
  imports Main "HOL-Library.Word" "HOL-Library.Sublist"
begin

unbundle bit_operations_syntax

section \<open>Fig completion suggestions: the data model\<close>

text \<open>
  The functions verified here are \<^verbatim>\<open>getFigSuggestions\<close>, \<^verbatim>\<open>getFigSpecSuggestions\<close>,
  \<^verbatim>\<open>collectCompletionItemResult\<close> (with its closure \<^verbatim>\<open>addSuggestions\<close>),
  \<^verbatim>\<open>getFixSuggestionDescription\<close> and \<^verbatim>\<open>getFigSuggestionLabel\<close>.

  Strings are \<open>string\<close>; \<^verbatim>\<open>a.startsWith(b)\<close> is \<open>prefix b a\<close>. A value that may be
  \<^verbatim>\<open>undefined\<close> or \<^verbatim>\<open>null\<close> is an \<open>option\<close>. Promises are awaited one after the
  other, so \<^verbatim>\<open>await\<close> is plain sequencing of the calls.
\<close>

subsection \<open>Spec nodes\<close>

text \<open>
  The \<^verbatim>\<open>name\<close> property of a spec node (\<^verbatim>\<open>Fig.Spec\<close>, \<^verbatim>\<open>Fig.Arg\<close>,
  \<^verbatim>\<open>Fig.Suggestion\<close>, \<^verbatim>\<open>Fig.Option\<close>): absent, one string, or an array of strings.
\<close>

datatype Name = NameUndefined | NameString string | NameArray "string list"

text \<open>
  An object node: its \<^verbatim>\<open>name\<close>, its \<^verbatim>\<open>description\<close>, and everything else it declares
  (subcommands, options, arguments), which this file never inspects, as \<open>rest\<close>.
\<close>

record 'b FigObject =
  name :: Name
  description :: "string option"
  rest :: 'b

text \<open>\<^verbatim>\<open>type SpecArg = Fig.Arg | Fig.Suggestion | Fig.Option | string\<close>\<close>

datatype 'b SpecArg = SpecString string | SpecObject "'b FigObject"

text \<open>
  A JavaScript object used as a keyed mapping (\<^verbatim>\<open>Record<string, T>\<close>): its own properties
  in the order they were created. \<^verbatim>\<open>Object.entries\<close> does not enumerate in that order in
  general: keys that are array indices (canonical decimal numerals up to \<open>2^32 - 2\<close>) come
  first, in ascending numeric order, and the other keys follow in creation order.
\<close>

type_synonym 'v JSObject = "(string \<times> 'v) list"

definition isDigit :: "char \<Rightarrow> bool" where
  "isDigit c = (c \<in> set ''0123456789'')"

definition digitsValue :: "string \<Rightarrow> nat" where
  "digitsValue k = foldl (\<lambda>n c. 10 * n + (of_char c - 48)) 0 k"

definition isArrayIndex :: "string \<Rightarrow> bool" where
  "isArrayIndex k =
     (case k of
        [] \<Rightarrow> False
      | c # cs \<Rightarrow> list_all isDigit k \<and> (if c = CHR ''0'' then cs = [] else True)
                 \<and> digitsValue k \<le> 4294967294)"

definition Object_entries :: "'v JSObject \<Rightarrow> (string \<times> 'v) list" where
  "Object_entries obj =
     sort_key (\<lambda>kv. digitsValue (fst kv)) (filter (\<lambda>kv. isArrayIndex (fst kv)) obj)
     @ filter (\<lambda>kv. \<not> isArrayIndex (fst kv)) obj"

text \<open>The suggestion source handed to \<^verbatim>\<open>addSuggestions\<close>:
  \<^verbatim>\<open>SpecArg[] | Record<string, SpecArg>\<close> (\<^verbatim>\<open>undefined\<close> is \<open>None\<close> at the use).\<close>

datatype 'b SpecArgs = ArgsArray "'b SpecArg list" | ArgsRecord "'b SpecArg JSObject"

text \<open>
  A generator: its \<^verbatim>\<open>template\<close> (one tag or an array of tags) and the rest of its declared
  fields (script, custom function, post-processing), which are its execution contract.
  Two generators are identical when all their declared fields are equal.
\<close>

datatype Template = TemplateString string | TemplateArray "string list"

record 'g Generator =
  template :: "Template option"
  contract :: 'g

record ('b, 'g) Arg =
  generators :: "'g Generator list option"
  suggestions :: "'b SpecArgs option"

record 'b CompletionObj =
  subcommands :: "'b SpecArg JSObject"
  options :: "'b SpecArg JSObject"

text \<open>\<^verbatim>\<open>ArgumentParserResult\<close>, the fields read here. \<^verbatim>\<open>suggestionFlags\<close> is a bitset
  tested with \<^verbatim>\<open>&\<close>, which works on 32-bit integers.\<close>

record ('b, 'g) ArgumentParserResult =
  completionObj :: "'b CompletionObj"
  currentArg :: "('b, 'g) Arg option"
  suggestionFlags :: "32 word"

subsection \<open>Host types\<close>

datatype TerminalCompletionItemKind = Method | Alias | Argument | Flag | OtherKind nat

datatype TokenType = TokenCommand | TokenArgument

record ICompletionResource =
  label :: string
  definitionCommand :: "string option"
  detail :: "string option"
  kind :: "TerminalCompletionItemKind option"

record TerminalContext =
  commandLine :: string
  cursorPosition :: int

text \<open>\<^verbatim>\<open>vscode.Uri\<close>, of which only \<^verbatim>\<open>fsPath\<close> is read.\<close>

datatype Uri = Uri (fsPath: string)

text \<open>\<^verbatim>\<open>Fig.ShellContext\<close> as built in \<^verbatim>\<open>getFigSpecSuggestions\<close>:
  \<^verbatim>\<open>environmentVariables\<close>, \<^verbatim>\<open>currentWorkingDirectory\<close>, \<^verbatim>\<open>sshPrefix\<close>,
  \<^verbatim>\<open>currentProcess\<close>.\<close>

datatype ShellContext =
  ShellContext (sc_environmentVariables: "string JSObject") (sc_currentWorkingDirectory: string)
    (sc_sshPrefix: string) (sc_currentProcess: string)

text \<open>
  \<^verbatim>\<open>FigState\<close> as built in \<^verbatim>\<open>addSuggestions\<close>: \<^verbatim>\<open>buffer\<close>, \<^verbatim>\<open>cursorLocation\<close>,
  \<^verbatim>\<open>cwd\<close>, \<^verbatim>\<open>environmentVariables\<close>, and the inner \<^verbatim>\<open>shellContext\<close> with its
  \<^verbatim>\<open>currentWorkingDirectory\<close> and the environment as an array of key/value pairs. The
  fields \<^verbatim>\<open>processUserIsIn\<close>, \<^verbatim>\<open>sshContextString\<close> (both \<^verbatim>\<open>null\<close>) and \<^verbatim>\<open>aliases\<close>
  (\<^verbatim>\<open>{}\<close>) are constants and left out.
\<close>

datatype FigState =
  FigState (fs_buffer: string) (fs_cursorLocation: int) (fs_cwd: "string option")
    (fs_environmentVariables: "string JSObject")
    (fs_shellContext_currentWorkingDirectory: "string option")
    (fs_shellContext_environmentVariables: "(string \<times> string) list")

text \<open>
  \<^verbatim>\<open>AutocompleteState\<close> as built in \<^verbatim>\<open>addSuggestions\<close>: \<^verbatim>\<open>figState\<close>,
  \<^verbatim>\<open>parserResult\<close> and \<^verbatim>\<open>command\<close>; every other field is a constant literal
  (\<^verbatim>\<open>generatorStates: []\<close>, \<^verbatim>\<open>selectedIndex: 0\<close>, \<^verbatim>\<open>suggestions: []\<close>, the flags
  \<^verbatim>\<open>false\<close>) and left out.
\<close>

datatype ('b, 'g, 'c) AutocompleteState =
  AutocompleteState (as_figState: FigState) (as_parserResult: "('b, 'g) ArgumentParserResult")
    (as_command: 'c)

subsection \<open>Results\<close>

record Requested =
  filesRequested :: bool
  foldersRequested :: bool

text \<open>\<^verbatim>\<open>IFigSpecSuggestionsResult\<close>\<close>

record 'i IFigSpecSuggestionsResult = Requested +
  hasCurrentArg :: bool
  items :: "'i list"

text \<open>
  The variables \<^verbatim>\<open>addSuggestions\<close> writes: the two \<^verbatim>\<open>let\<close> flags of
  \<^verbatim>\<open>collectCompletionItemResult\<close> and the caller's \<^verbatim>\<open>items\<close> array it pushes to.
\<close>

record 'i Collected = Requested +
  itemsArr :: "'i list"

subsection \<open>What lies outside this file\<close>

text \<open>
  The cancellation token is owned by the host and may change while the request runs. It is
  read at two places; the \<open>n\<close>-th read of \<^verbatim>\<open>isCancellationRequested\<close> (counting from 0)
  returns \<open>t n\<close> for a token \<open>t\<close>. The world threaded through the functions counts the reads
  made so far and keeps a log of generator executions: one entry per call of
  \<^verbatim>\<open>triggerGenerators\<close>, listing the generators whose execution contract that call invoked.
\<close>

type_synonym CancellationToken = "nat \<Rightarrow> bool"

record 'g World =
  polls :: nat
  triggered :: "'g Generator list list"

text \<open>
  The imported functions and constants, taken as parameters:
  \<^item> \<^verbatim>\<open>osIsWindows()\<close>;
  \<^item> \<open>regExpMatch p s\<close>: whether \<^verbatim>\<open>s.match(new RegExp(p))\<close> is not \<^verbatim>\<open>null\<close>, for a
    pattern source \<open>p\<close> the engine accepts (a pattern it refuses throws: see \<open>matchRegExp\<close>
    below);
  \<^item> \<^verbatim>\<open>removeAnyFileExtension\<close>;
  \<^item> \<^verbatim>\<open>createCompletionItem(cursorPosition, prefix, resource, detail, documentation, kind)\<close>;
  \<^item> \<^verbatim>\<open>getCommand(commandLine, {}, cursorPosition)\<close>, \<open>None\<close> when it returns no command;
  \<^item> \<^verbatim>\<open>parseArguments(command, shellContext, spec)\<close>, when its promise is fulfilled (a
    rejected one throws: see \<open>awaitParseArguments\<close> below);
  \<^item> \<open>execute\<close>: the execution contract of a generator, run in an autocomplete state, giving the
    awaited value of its \<^verbatim>\<open>request\<close> (\<open>None\<close> for \<^verbatim>\<open>undefined\<close>);
  \<^item> the three bits \<^verbatim>\<open>SuggestionFlag.Args\<close>, \<^verbatim>\<open>SuggestionFlag.Subcommands\<close>,
    \<^verbatim>\<open>SuggestionFlag.Options\<close>.
\<close>

record ('b, 'g, 'c, 'i) Imports =
  osIsWindows :: bool
  regExpMatch :: "string \<Rightarrow> string \<Rightarrow> bool"
  removeAnyFileExtension :: "string \<Rightarrow> string"
  createCompletionItem ::
    "int \<Rightarrow> string \<Rightarrow> ICompletionResource \<Rightarrow> string option \<Rightarrow> string option
      \<Rightarrow> TerminalCompletionItemKind option \<Rightarrow> 'i"
  getCommand :: "string \<Rightarrow> int \<Rightarrow> 'c option"
  parseArguments :: "'c \<Rightarrow> ShellContext \<Rightarrow> 'b FigObject \<Rightarrow> ('b, 'g) ArgumentParserResult"
  execute :: "('b, 'g, 'c) AutocompleteState \<Rightarrow> 'g Generator \<Rightarrow> 'b FigObject list option"
  SuggestionFlag_Args :: "32 word"
  SuggestionFlag_Subcommands :: "32 word"
  SuggestionFlag_Options :: "32 word"

section \<open>The functions\<close>

subsection \<open>Labels and descriptions\<close>

fun getFigSuggestionLabel :: "'b SpecArg \<Rightarrow> string list option" where
  "getFigSuggestionLabel (SpecString s) = Some [s]"
| "getFigSuggestionLabel (SpecObject spec) =
     (case name spec of
        NameString s \<Rightarrow> Some [s]
      | NameArray ns \<Rightarrow> (if ns = [] then None else Some ns)
      | NameUndefined \<Rightarrow> None)"

definition getFixSuggestionDescription :: "'b FigObject \<Rightarrow> string" where
  "getFixSuggestionDescription spec = (case description spec of Some s \<Rightarrow> s | None \<Rightarrow> [])"

definition convertEnvRecordToArray :: "string JSObject \<Rightarrow> (string \<times> string) list" where
  "convertEnvRecordToArray env = map (\<lambda>kv. (fst kv, snd kv)) (Object_entries env)"

subsection \<open>Generator resolution\<close>

text \<open>
  \<^verbatim>\<open>if (generator.template) { const templates = Array.isArray(generator.template) ?
  generator.template : [generator.template]; ... }\<close>: the tags the template loop visits. An
  empty string is falsy, an array (also an empty one) is truthy.
\<close>

definition generatorTemplates :: "'g Generator \<Rightarrow> string list" where
  "generatorTemplates generator =
     (case template generator of
        None \<Rightarrow> []
      | Some (TemplateString t) \<Rightarrow> (if t = [] then [] else [t])
      | Some (TemplateArray ts) \<Rightarrow> ts)"

fun templatesLoop :: "string list \<Rightarrow> 'i Collected \<Rightarrow> 'i Collected" where
  "templatesLoop [] v = v"
| "templatesLoop (t # ts) v =
     templatesLoop ts
       (if t = ''filepaths'' then v\<lparr>filesRequested := True\<rparr>
        else if t = ''folders'' then v\<lparr>foldersRequested := True\<rparr>
        else v)"

text \<open>
  Modelled from the spec: \<^verbatim>\<open>createGeneratorState(state).triggerGenerators(parsedArguments)\<close>
  is imported from \<^verbatim>\<open>./autocomplete/state/generators\<close>, which is not among the sources.
  Section 4.3 of the specification describes one resolution pass over the generators of the
  current argument: "skip if an identical generator (by structural equality of its
  definition) has already been triggered in this resolution pass"; "if the generator
  declares a template of "filepaths" or "folders", set the corresponding boolean flag on the
  result rather than computing matches directly"; "otherwise, invoke the generator's
  execution contract"; "one batch per generator", "concatenated in generator-declaration
  order". The flags are set by the caller (\<open>templatesLoop\<close> above), so a pass gives such a
  generator no batch. \<open>declaresFileTemplate\<close> is the test for these two templates.
\<close>

definition declaresFileTemplate :: "'g Generator \<Rightarrow> bool" where
  "declaresFileTemplate g =
     (''filepaths'' \<in> set (generatorTemplates g) \<or> ''folders'' \<in> set (generatorTemplates g))"

text \<open>
  Modelled from the spec: one pass of section 4.3 over the generators \<open>gs\<close>, given the
  generators \<open>seen\<close> so far and the execution contract \<open>run\<close>. It returns the awaited requests
  in declaration order (\<open>None\<close> for a generator without batch) and the generators whose
  contract was invoked.
\<close>

fun resolveGenerators ::
  "('g Generator \<Rightarrow> 'b FigObject list option) \<Rightarrow> 'g Generator list \<Rightarrow> 'g Generator list
    \<Rightarrow> 'b FigObject list option list \<times> 'g Generator list" where
  "resolveGenerators run [] seen = ([], [])"
| "resolveGenerators run (g # gs) seen =
     (if g \<in> set seen then resolveGenerators run gs seen
      else (case resolveGenerators run gs (g # seen) of
              (requests, invoked) \<Rightarrow>
                if declaresFileTemplate g then (None # requests, invoked)
                else (run g # requests, g # invoked)))"

text \<open>
  Modelled from the spec: \<^verbatim>\<open>triggerGenerators(parsedArguments)\<close> on the generator state
  created from \<open>state\<close> is one pass over \<^verbatim>\<open>parsedArguments.currentArg.generators\<close>; the
  generators it invoked are appended to the log as one entry.
\<close>

definition triggerGenerators ::
  "('b, 'g, 'c, 'i) Imports \<Rightarrow> ('b, 'g, 'c) AutocompleteState \<Rightarrow> ('b, 'g) ArgumentParserResult
    \<Rightarrow> 'g World \<Rightarrow> 'b FigObject list option list \<times> 'g World" where
  "triggerGenerators d state parsedArguments w =
     (case resolveGenerators (execute d state)
             (case currentArg parsedArguments of
                None \<Rightarrow> []
              | Some a \<Rightarrow> (case generators a of None \<Rightarrow> [] | Some gs \<Rightarrow> gs)) [] of
        (requests, invoked) \<Rightarrow> (requests, w\<lparr>triggered := triggered w @ [invoked]\<rparr>))"

subsection \<open>Pushing completion items\<close>

text \<open>The object literal \<^verbatim>\<open>{ label }\<close> passed to \<^verbatim>\<open>createCompletionItem\<close>.\<close>

definition labelResource :: "string \<Rightarrow> ICompletionResource" where
  "labelResource l = \<lparr>label = l, definitionCommand = None, detail = None, kind = None\<rparr>"

text \<open>\<^verbatim>\<open>typeof item === 'string' ? item : item.description\<close>\<close>

fun specArgDocumentation :: "'b SpecArg \<Rightarrow> string option" where
  "specArgDocumentation (SpecString s) = Some s"
| "specArgDocumentation (SpecObject obj) = description obj"

text \<open>\<^verbatim>\<open>!item.name\<close>: \<^verbatim>\<open>undefined\<close> and the empty string are falsy, every array is truthy.\<close>

fun nameIsFalsy :: "Name \<Rightarrow> bool" where
  "nameIsFalsy NameUndefined = True"
| "nameIsFalsy (NameString s) = (s = [])"
| "nameIsFalsy (NameArray ns) = False"

text \<open>\<^verbatim>\<open>for (const label of suggestionLabels) { items.push(createCompletionItem(
  terminalContext.cursorPosition, prefix, { label }, undefined, documentation, kind)); }\<close>\<close>

fun pushLabels ::
  "('b, 'g, 'c, 'i) Imports \<Rightarrow> TerminalContext \<Rightarrow> string \<Rightarrow> string option
    \<Rightarrow> TerminalCompletionItemKind \<Rightarrow> string list \<Rightarrow> 'i list \<Rightarrow> 'i list" where
  "pushLabels d tc pfx doc k [] its = its"
| "pushLabels d tc pfx doc k (l # ls) its =
     pushLabels d tc pfx doc k ls
       (its @ [createCompletionItem d (cursorPosition tc) pfx (labelResource l) None doc (Some k)])"

text \<open>\<^verbatim>\<open>for (const item of (await generatorResult?.request) ?? [])\<close>. The items of a request
  are \<^verbatim>\<open>Fig.Suggestion\<close> objects, so \<^verbatim>\<open>typeof item === 'string'\<close> is false.\<close>

fun generatorItemsLoop ::
  "('b, 'g, 'c, 'i) Imports \<Rightarrow> TerminalContext \<Rightarrow> string \<Rightarrow> TerminalCompletionItemKind
    \<Rightarrow> 'b FigObject list \<Rightarrow> 'i list \<Rightarrow> 'i list" where
  "generatorItemsLoop d tc pfx k [] its = its"
| "generatorItemsLoop d tc pfx k (item # others) its =
     generatorItemsLoop d tc pfx k others
       (if nameIsFalsy (name item) then its
        else (case getFigSuggestionLabel (SpecObject item) of
                None \<Rightarrow> its
              | Some suggestionLabels \<Rightarrow>
                  pushLabels d tc pfx (description item) k suggestionLabels its))"

text \<open>\<^verbatim>\<open>for (const generatorResult of generatorResults)\<close>\<close>

fun generatorResultsLoop ::
  "('b, 'g, 'c, 'i) Imports \<Rightarrow> TerminalContext \<Rightarrow> string \<Rightarrow> TerminalCompletionItemKind
    \<Rightarrow> 'b FigObject list option list \<Rightarrow> 'i list \<Rightarrow> 'i list" where
  "generatorResultsLoop d tc pfx k [] its = its"
| "generatorResultsLoop d tc pfx k (request # others) its =
     generatorResultsLoop d tc pfx k others
       (generatorItemsLoop d tc pfx k (case request of None \<Rightarrow> [] | Some xs \<Rightarrow> xs) its)"

text \<open>\<^verbatim>\<open>initialFigState\<close>: \<^verbatim>\<open>buffer: terminalContext.commandLine\<close>,
  \<^verbatim>\<open>cursorLocation: terminalContext.cursorPosition\<close>,
  \<^verbatim>\<open>cwd: shellIntegrationCwd?.fsPath ?? null\<close>, \<^verbatim>\<open>environmentVariables: env\<close>, and
  \<^verbatim>\<open>shellContext: { currentWorkingDirectory: shellIntegrationCwd?.fsPath,
  environmentVariables: convertEnvRecordToArray(env) }\<close>.\<close>

definition initialFigState :: "TerminalContext \<Rightarrow> Uri option \<Rightarrow> string JSObject \<Rightarrow> FigState" where
  "initialFigState tc cwd env =
     FigState (commandLine tc) (cursorPosition tc) (map_option fsPath cwd) env
       (map_option fsPath cwd) (convertEnvRecordToArray env)"

text \<open>\<^verbatim>\<open>for (const generator of generators)\<close>: the template tags set the flags, then a
  generator state is created from a fresh autocomplete state, \<^verbatim>\<open>triggerGenerators\<close> is
  called on the parse result, and every named item of every result is pushed.\<close>

fun generatorsLoop ::
  "('b, 'g, 'c, 'i) Imports \<Rightarrow> 'c \<Rightarrow> ('b, 'g) ArgumentParserResult \<Rightarrow> string \<Rightarrow> TerminalContext
    \<Rightarrow> Uri option \<Rightarrow> string JSObject \<Rightarrow> TerminalCompletionItemKind \<Rightarrow> 'g Generator list
    \<Rightarrow> 'i Collected \<Rightarrow> 'g World \<Rightarrow> 'i Collected \<times> 'g World" where
  "generatorsLoop d command parsedArguments pfx tc cwd env k [] v w = (v, w)"
| "generatorsLoop d command parsedArguments pfx tc cwd env k (generator # others) v w =
     (let v1 = templatesLoop (generatorTemplates generator) v;
          state = AutocompleteState (initialFigState tc cwd env) parsedArguments command
      in (case triggerGenerators d state parsedArguments w of
            (generatorResults, w1) \<Rightarrow>
              generatorsLoop d command parsedArguments pfx tc cwd env k others
                (v1\<lparr>itemsArr := generatorResultsLoop d tc pfx k generatorResults (itemsArr v1)\<rparr>)
                w1))"

text \<open>\<^verbatim>\<open>for (const item of specArgs)\<close>, for an array source.\<close>

fun arrayLoop ::
  "('b, 'g, 'c, 'i) Imports \<Rightarrow> TerminalContext \<Rightarrow> string \<Rightarrow> TerminalCompletionItemKind
    \<Rightarrow> 'b SpecArg list \<Rightarrow> 'i list \<Rightarrow> 'i list" where
  "arrayLoop d tc pfx k [] its = its"
| "arrayLoop d tc pfx k (item # others) its =
     arrayLoop d tc pfx k others
       (case getFigSuggestionLabel item of
          None \<Rightarrow> its
        | Some suggestionLabels \<Rightarrow>
            pushLabels d tc pfx (specArgDocumentation item) k suggestionLabels its)"

text \<open>\<^verbatim>\<open>for (const [label, item] of Object.entries(specArgs))\<close>, run on the entries.\<close>

fun entriesLoop ::
  "('b, 'g, 'c, 'i) Imports \<Rightarrow> TerminalContext \<Rightarrow> string \<Rightarrow> TerminalCompletionItemKind
    \<Rightarrow> (string \<times> 'b SpecArg) list \<Rightarrow> 'i list \<Rightarrow> 'i list" where
  "entriesLoop d tc pfx k [] its = its"
| "entriesLoop d tc pfx k (entry # others) its =
     entriesLoop d tc pfx k others
       (its @ [createCompletionItem d (cursorPosition tc) pfx (labelResource (fst entry)) None
                 (specArgDocumentation (snd entry)) (Some k)])"

subsection \<open>addSuggestions and collectCompletionItemResult\<close>

text \<open>The first block of \<^verbatim>\<open>addSuggestions\<close>:
  \<^verbatim>\<open>if (kind === Argument && parsedArguments?.currentArg?.generators) { ... }\<close>\<close>

definition addGeneratorSuggestions ::
  "('b, 'g, 'c, 'i) Imports \<Rightarrow> 'c \<Rightarrow> string \<Rightarrow> TerminalContext \<Rightarrow> Uri option \<Rightarrow> string JSObject
    \<Rightarrow> TerminalCompletionItemKind \<Rightarrow> ('b, 'g) ArgumentParserResult option
    \<Rightarrow> 'i Collected \<Rightarrow> 'g World \<Rightarrow> 'i Collected \<times> 'g World" where
  "addGeneratorSuggestions d command pfx tc cwd env k parsedArguments v w =
     (if k = Argument then
        (case parsedArguments of
           None \<Rightarrow> (v, w)
         | Some pa \<Rightarrow>
             (case currentArg pa of
                None \<Rightarrow> (v, w)
              | Some a \<Rightarrow>
                  (case generators a of
                     None \<Rightarrow> (v, w)
                   | Some gens \<Rightarrow> generatorsLoop d command pa pfx tc cwd env k gens v w)))
      else (v, w))"

text \<open>The others of \<^verbatim>\<open>addSuggestions\<close>: nothing for a missing source, the array loop for an
  array, the loop over \<^verbatim>\<open>Object.entries\<close> otherwise.\<close>

definition addStaticSuggestions ::
  "('b, 'g, 'c, 'i) Imports \<Rightarrow> TerminalContext \<Rightarrow> string \<Rightarrow> TerminalCompletionItemKind
    \<Rightarrow> 'b SpecArgs option \<Rightarrow> 'i list \<Rightarrow> 'i list" where
  "addStaticSuggestions d tc pfx k specArgs its =
     (case specArgs of
        None \<Rightarrow> its
      | Some (ArgsArray xs) \<Rightarrow> arrayLoop d tc pfx k xs its
      | Some (ArgsRecord obj) \<Rightarrow> entriesLoop d tc pfx k (Object_entries obj) its)"

definition addSuggestions ::
  "('b, 'g, 'c, 'i) Imports \<Rightarrow> 'c \<Rightarrow> string \<Rightarrow> TerminalContext \<Rightarrow> Uri option \<Rightarrow> string JSObject
    \<Rightarrow> 'b SpecArgs option \<Rightarrow> TerminalCompletionItemKind \<Rightarrow> ('b, 'g) ArgumentParserResult option
    \<Rightarrow> 'i Collected \<Rightarrow> 'g World \<Rightarrow> 'i Collected \<times> 'g World" where
  "addSuggestions d command pfx tc cwd env specArgs k parsedArguments v w =
     (case addGeneratorSuggestions d command pfx tc cwd env k parsedArguments v w of
        (v1, w1) \<Rightarrow> (v1\<lparr>itemsArr := addStaticSuggestions d tc pfx k specArgs (itemsArr v1)\<rparr>, w1))"

text \<open>\<^verbatim>\<open>parsedArguments.suggestionFlags & SuggestionFlag.X\<close> as a condition.\<close>

definition flagSet :: "32 word \<Rightarrow> 32 word \<Rightarrow> bool" where
  "flagSet flags b = (flags AND b \<noteq> 0)"

text \<open>
  \<^verbatim>\<open>collectCompletionItemResult\<close>. The returned object \<^verbatim>\<open>{ filesRequested, foldersRequested }\<close>
  and the \<^verbatim>\<open>items\<close> array it has pushed to are returned together, with the world. Every
  \<^verbatim>\<open>return\<close> of the function returns an object, never \<^verbatim>\<open>undefined\<close>.
\<close>

definition collectCompletionItemResult ::
  "('b, 'g, 'c, 'i) Imports \<Rightarrow> 'c \<Rightarrow> ('b, 'g) ArgumentParserResult \<Rightarrow> string \<Rightarrow> TerminalContext
    \<Rightarrow> Uri option \<Rightarrow> string JSObject \<Rightarrow> 'i list \<Rightarrow> 'g World \<Rightarrow> 'i Collected \<times> 'g World" where
  "collectCompletionItemResult d command parsedArguments pfx tc cwd env its w =
     (case (if flagSet (suggestionFlags parsedArguments) (SuggestionFlag_Args d)
            then addSuggestions d command pfx tc cwd env
                   (case currentArg parsedArguments of None \<Rightarrow> None | Some a \<Rightarrow> suggestions a)
                   Argument (Some parsedArguments)
                   \<lparr>filesRequested = False, foldersRequested = False, itemsArr = its\<rparr> w
            else (\<lparr>filesRequested = False, foldersRequested = False, itemsArr = its\<rparr>, w)) of
        (v1, w1) \<Rightarrow>
          (case (if flagSet (suggestionFlags parsedArguments) (SuggestionFlag_Subcommands d)
                 then addSuggestions d command pfx tc cwd env
                        (Some (ArgsRecord (subcommands (completionObj parsedArguments))))
                        Method None v1 w1
                 else (v1, w1)) of
             (v2, w2) \<Rightarrow>
               (if flagSet (suggestionFlags parsedArguments) (SuggestionFlag_Options d)
                then addSuggestions d command pfx tc cwd env
                       (Some (ArgsRecord (options (completionObj parsedArguments))))
                       Flag None v2 w2
                else (v2, w2))))"

subsection \<open>getFigSpecSuggestions\<close>

text \<open>One read of the token: \<^verbatim>\<open>token && token.isCancellationRequested\<close> and
  \<^verbatim>\<open>token?.isCancellationRequested\<close>. A missing token is never read.\<close>

definition isCancellationRequested :: "CancellationToken option \<Rightarrow> 'g World \<Rightarrow> bool \<times> 'g World" where
  "isCancellationRequested token w =
     (case token of
        None \<Rightarrow> (False, w)
      | Some t \<Rightarrow> (t (polls w), w\<lparr>polls := Suc (polls w)\<rparr>))"

definition getFigSpecSuggestions ::
  "('b, 'g, 'c, 'i) Imports \<Rightarrow> 'b FigObject \<Rightarrow> TerminalContext \<Rightarrow> string \<Rightarrow> Uri option
    \<Rightarrow> string JSObject \<Rightarrow> string \<Rightarrow> CancellationToken option \<Rightarrow> 'g World
    \<Rightarrow> 'i IFigSpecSuggestionsResult option \<times> 'g World" where
  "getFigSpecSuggestions d spec tc pfx shellIntegrationCwd env procName token w =
     (case getCommand d (commandLine tc) (cursorPosition tc) of
        None \<Rightarrow> (None, w)
      | Some command \<Rightarrow>
          (case shellIntegrationCwd of
             None \<Rightarrow> (None, w)
           | Some cwd \<Rightarrow>
               (let shellContext = ShellContext env (fsPath cwd) [] procName;
                    parsedArguments = parseArguments d command shellContext spec
                in (case collectCompletionItemResult d command parsedArguments pfx tc
                           shellIntegrationCwd env [] w of
                      (completionItemResult, w1) \<Rightarrow>
                        (case isCancellationRequested token w1 of
                           (cancelled, w2) \<Rightarrow>
                             if cancelled then (None, w2)
                             else (Some \<lparr>filesRequested = filesRequested completionItemResult,
                                         foldersRequested = foldersRequested completionItemResult,
                                         hasCurrentArg = (currentArg parsedArguments \<noteq> None),
                                         items = itemsArr completionItemResult\<rparr>, w2))))))"

subsection \<open>getFigSuggestions\<close>

text \<open>The pattern source \<^verbatim>\<open>`${specLabel}(\\.[^ ]+)?$`\<close>; character \<open>0x5C\<close> is the backslash.\<close>

definition windowsLabelPattern :: "string \<Rightarrow> string" where
  "windowsLabelPattern specLabel = specLabel @ ''('' @ [CHR 0x5C] @ ''.[^ ]+)?$''"

definition findAvailableCommand ::
  "('b, 'g, 'c, 'i) Imports \<Rightarrow> ICompletionResource list \<Rightarrow> string \<Rightarrow> ICompletionResource option" where
  "findAvailableCommand d availableCommands specLabel =
     (if osIsWindows d
      then find (\<lambda>command. regExpMatch d (windowsLabelPattern specLabel) (label command))
             availableCommands
      else find (\<lambda>command. prefix specLabel (label command)) availableCommands)"

text \<open>\<^verbatim>\<open>command.definitionCommand ?? command.label\<close>\<close>

definition definitionOrLabel :: "ICompletionResource \<Rightarrow> string" where
  "definitionOrLabel command = (case definitionCommand command of Some c \<Rightarrow> c | None \<Rightarrow> label command)"

definition commandAndAliases ::
  "('b, 'g, 'c, 'i) Imports \<Rightarrow> ICompletionResource list \<Rightarrow> string \<Rightarrow> ICompletionResource list" where
  "commandAndAliases d availableCommands specLabel =
     (if osIsWindows d
      then filter (\<lambda>command. specLabel = removeAnyFileExtension d (definitionOrLabel command))
             availableCommands
      else filter (\<lambda>command. specLabel = definitionOrLabel command) availableCommands)"

text \<open>The condition negated at \<^verbatim>\<open>if (!(osIsWindows() ? ....some(...) : ....some(...)))\<close>.\<close>

definition isFirstWord ::
  "('b, 'g, 'c, 'i) Imports \<Rightarrow> ICompletionResource list \<Rightarrow> string \<Rightarrow> bool" where
  "isFirstWord d cmds precedingText =
     (if osIsWindows d
      then list_ex (\<lambda>e. prefix (removeAnyFileExtension d (label e) @ '' '') precedingText) cmds
      else list_ex (\<lambda>e. prefix (label e @ '' '') precedingText) cmds)"

text \<open>The body of \<^verbatim>\<open>for (const specLabel of specLabels)\<close>, on the \<^verbatim>\<open>result\<close> object.\<close>

definition specLabelBody ::
  "('b, 'g, 'c, 'i) Imports \<Rightarrow> 'b FigObject \<Rightarrow> TerminalContext \<Rightarrow> ICompletionResource list
    \<Rightarrow> string \<Rightarrow> TokenType \<Rightarrow> Uri option \<Rightarrow> string JSObject \<Rightarrow> string \<Rightarrow> string
    \<Rightarrow> CancellationToken option \<Rightarrow> string \<Rightarrow> 'i IFigSpecSuggestionsResult \<Rightarrow> 'g World
    \<Rightarrow> 'i IFigSpecSuggestionsResult \<times> 'g World" where
  "specLabelBody d spec tc availableCommands pfx tokenType shellIntegrationCwd env procName
       precedingText token specLabel result w =
     (case findAvailableCommand d availableCommands specLabel of
        None \<Rightarrow> (result, w)
      | Some availableCommand \<Rightarrow>
          (case isCancellationRequested token w of
             (cancelled, w1) \<Rightarrow>
               if cancelled then (result, w1)
               else if tokenType = TokenCommand then
                 (if kind availableCommand \<noteq> Some Alias
                  then (result\<lparr>items := items result @
                          [createCompletionItem d (cursorPosition tc) pfx (labelResource specLabel)
                             (Some (getFixSuggestionDescription spec)) (detail availableCommand)
                             None]\<rparr>, w1)
                  else (result, w1))
               else if \<not> isFirstWord d (commandAndAliases d availableCommands specLabel)
                            precedingText
               then (result, w1)
               else (case getFigSpecSuggestions d spec tc pfx shellIntegrationCwd env procName
                            token w1 of
                       (None, w2) \<Rightarrow> (result, w2)
                     | (Some completionItemResult, w2) \<Rightarrow>
                         (result\<lparr>hasCurrentArg :=
                                   hasCurrentArg result \<or> hasCurrentArg completionItemResult,
                                 filesRequested :=
                                   filesRequested result \<or> filesRequested completionItemResult,
                                 foldersRequested :=
                                   foldersRequested result \<or> foldersRequested completionItemResult,
                                 items := items result @ items completionItemResult\<rparr>, w2))))"

fun specLabelsLoop ::
  "('b, 'g, 'c, 'i) Imports \<Rightarrow> 'b FigObject \<Rightarrow> TerminalContext \<Rightarrow> ICompletionResource list
    \<Rightarrow> string \<Rightarrow> TokenType \<Rightarrow> Uri option \<Rightarrow> string JSObject \<Rightarrow> string \<Rightarrow> string
    \<Rightarrow> CancellationToken option \<Rightarrow> string list \<Rightarrow> 'i IFigSpecSuggestionsResult \<Rightarrow> 'g World
    \<Rightarrow> 'i IFigSpecSuggestionsResult \<times> 'g World" where
  "specLabelsLoop d spec tc availableCommands pfx tokenType shellIntegrationCwd env procName
       precedingText token [] result w = (result, w)"
| "specLabelsLoop d spec tc availableCommands pfx tokenType shellIntegrationCwd env procName
       precedingText token (specLabel # others) result w =
     (case specLabelBody d spec tc availableCommands pfx tokenType shellIntegrationCwd env
             procName precedingText token specLabel result w of
        (result1, w1) \<Rightarrow>
          specLabelsLoop d spec tc availableCommands pfx tokenType shellIntegrationCwd env
            procName precedingText token others result1 w1)"

text \<open>\<^verbatim>\<open>for (const spec of specs)\<close>: a spec without labels is skipped.\<close>

fun specsLoop ::
  "('b, 'g, 'c, 'i) Imports \<Rightarrow> 'b FigObject list \<Rightarrow> TerminalContext \<Rightarrow> ICompletionResource list
    \<Rightarrow> string \<Rightarrow> TokenType \<Rightarrow> Uri option \<Rightarrow> string JSObject \<Rightarrow> string \<Rightarrow> string
    \<Rightarrow> CancellationToken option \<Rightarrow> 'i IFigSpecSuggestionsResult \<Rightarrow> 'g World
    \<Rightarrow> 'i IFigSpecSuggestionsResult \<times> 'g World" where
  "specsLoop d [] tc availableCommands pfx tokenType shellIntegrationCwd env procName
       precedingText token result w = (result, w)"
| "specsLoop d (spec # others) tc availableCommands pfx tokenType shellIntegrationCwd env procName
       precedingText token result w =
     (case getFigSuggestionLabel (SpecObject spec) of
        None \<Rightarrow>
          specsLoop d others tc availableCommands pfx tokenType shellIntegrationCwd env procName
            precedingText token result w
      | Some specLabels \<Rightarrow>
          (case specLabelsLoop d spec tc availableCommands pfx tokenType shellIntegrationCwd env
                  procName precedingText token specLabels result w of
             (result1, w1) \<Rightarrow>
               specsLoop d others tc availableCommands pfx tokenType shellIntegrationCwd env
                 procName precedingText token result1 w1))"

definition emptyResult :: "'i IFigSpecSuggestionsResult" where
  "emptyResult =
     \<lparr>filesRequested = False, foldersRequested = False, hasCurrentArg = False, items = []\<rparr>"

definition getFigSuggestions ::
  "('b, 'g, 'c, 'i) Imports \<Rightarrow> 'b FigObject list \<Rightarrow> TerminalContext \<Rightarrow> ICompletionResource list
    \<Rightarrow> string \<Rightarrow> TokenType \<Rightarrow> Uri option \<Rightarrow> string JSObject \<Rightarrow> string \<Rightarrow> string
    \<Rightarrow> CancellationToken option \<Rightarrow> 'g World
    \<Rightarrow> 'i IFigSpecSuggestionsResult \<times> 'g World" where
  "getFigSuggestions d specs tc availableCommands pfx tokenType shellIntegrationCwd env procName
       precedingText token w =
     specsLoop d specs tc availableCommands pfx tokenType shellIntegrationCwd env procName
       precedingText token emptyResult w"

section \<open>The functions with the exceptions of the imports\<close>











section \<open>Closed forms of the loops\<close>

text \<open>
  What each loop pushes, written with \<open>map\<close> and \<open>concat\<close>. These definitions follow the wording
  of the specification; the lemmas below prove that the loops of the code compute them.
\<close>

text \<open>One candidate per label, with the documentation and kind given.\<close>

definition labelCandidates ::
  "('b, 'g, 'c, 'i) Imports \<Rightarrow> TerminalContext \<Rightarrow> string \<Rightarrow> string option
    \<Rightarrow> TerminalCompletionItemKind \<Rightarrow> string list \<Rightarrow> 'i list" where
  "labelCandidates d tc pfx doc k ls =
     map (\<lambda>l. createCompletionItem d (cursorPosition tc) pfx (labelResource l) None doc (Some k)) ls"

definition specArgCandidates ::
  "('b, 'g, 'c, 'i) Imports \<Rightarrow> TerminalContext \<Rightarrow> string \<Rightarrow> TerminalCompletionItemKind
    \<Rightarrow> 'b SpecArg \<Rightarrow> 'i list" where
  "specArgCandidates d tc pfx k item =
     (case getFigSuggestionLabel item of
        None \<Rightarrow> []
      | Some ls \<Rightarrow> labelCandidates d tc pfx (specArgDocumentation item) k ls)"

definition entryCandidate ::
  "('b, 'g, 'c, 'i) Imports \<Rightarrow> TerminalContext \<Rightarrow> string \<Rightarrow> TerminalCompletionItemKind
    \<Rightarrow> string \<times> 'b SpecArg \<Rightarrow> 'i" where
  "entryCandidate d tc pfx k entry =
     createCompletionItem d (cursorPosition tc) pfx (labelResource (fst entry)) None
       (specArgDocumentation (snd entry)) (Some k)"

definition staticCandidates ::
  "('b, 'g, 'c, 'i) Imports \<Rightarrow> TerminalContext \<Rightarrow> string \<Rightarrow> TerminalCompletionItemKind
    \<Rightarrow> 'b SpecArgs option \<Rightarrow> 'i list" where
  "staticCandidates d tc pfx k specArgs =
     (case specArgs of
        None \<Rightarrow> []
      | Some (ArgsArray xs) \<Rightarrow> concat (map (specArgCandidates d tc pfx k) xs)
      | Some (ArgsRecord obj) \<Rightarrow> map (entryCandidate d tc pfx k) (Object_entries obj))"

text \<open>A usable name: a string that is not empty, or an array that is not empty.\<close>

fun usableName :: "Name \<Rightarrow> bool" where
  "usableName NameUndefined = False"
| "usableName (NameString s) = (s \<noteq> [])"
| "usableName (NameArray ns) = (ns \<noteq> [])"

definition suggestionCandidates ::
  "('b, 'g, 'c, 'i) Imports \<Rightarrow> TerminalContext \<Rightarrow> string \<Rightarrow> TerminalCompletionItemKind
    \<Rightarrow> 'b FigObject \<Rightarrow> 'i list" where
  "suggestionCandidates d tc pfx k item =
     (if usableName (name item)
      then labelCandidates d tc pfx (description item) k
             (case name item of NameString s \<Rightarrow> [s] | NameArray ns \<Rightarrow> ns | NameUndefined \<Rightarrow> [])
      else [])"

definition requestCandidates ::
  "('b, 'g, 'c, 'i) Imports \<Rightarrow> TerminalContext \<Rightarrow> string \<Rightarrow> TerminalCompletionItemKind
    \<Rightarrow> 'b FigObject list option \<Rightarrow> 'i list" where
  "requestCandidates d tc pfx k request =
     concat (map (suggestionCandidates d tc pfx k) (case request of None \<Rightarrow> [] | Some xs \<Rightarrow> xs))"

text \<open>
  The generators of the current argument (\<^verbatim>\<open>parsedArguments?.currentArg?.generators\<close>, none
  when a part is missing), the outcome of one pass of \<open>triggerGenerators\<close> over them, and
  the candidates pushed for one pass.
\<close>

definition argGenerators :: "('b, 'g) ArgumentParserResult \<Rightarrow> 'g Generator list" where
  "argGenerators pa =
     (case currentArg pa of
        None \<Rightarrow> []
      | Some a \<Rightarrow> (case generators a of None \<Rightarrow> [] | Some gs \<Rightarrow> gs))"

definition passOutcome ::
  "('b, 'g, 'c, 'i) Imports \<Rightarrow> 'c \<Rightarrow> ('b, 'g) ArgumentParserResult \<Rightarrow> TerminalContext \<Rightarrow> Uri option
    \<Rightarrow> string JSObject \<Rightarrow> 'b FigObject list option list \<times> 'g Generator list" where
  "passOutcome d command pa tc cwd env =
     resolveGenerators (execute d (AutocompleteState (initialFigState tc cwd env) pa command))
       (argGenerators pa) []"

definition passCandidates ::
  "('b, 'g, 'c, 'i) Imports \<Rightarrow> 'c \<Rightarrow> ('b, 'g) ArgumentParserResult \<Rightarrow> string \<Rightarrow> TerminalContext
    \<Rightarrow> Uri option \<Rightarrow> string JSObject \<Rightarrow> TerminalCompletionItemKind \<Rightarrow> 'i list" where
  "passCandidates d command pa pfx tc cwd env k =
     concat (map (requestCandidates d tc pfx k) (fst (passOutcome d command pa tc cwd env)))"

text \<open>The three groups of candidates of \<^verbatim>\<open>collectCompletionItemResult\<close>.\<close>

definition argumentCandidates ::
  "('b, 'g, 'c, 'i) Imports \<Rightarrow> 'c \<Rightarrow> ('b, 'g) ArgumentParserResult \<Rightarrow> string \<Rightarrow> TerminalContext
    \<Rightarrow> Uri option \<Rightarrow> string JSObject \<Rightarrow> 'i list" where
  "argumentCandidates d command pa pfx tc cwd env =
     concat (replicate (length (argGenerators pa))
               (passCandidates d command pa pfx tc cwd env Argument))
     @ staticCandidates d tc pfx Argument
         (case currentArg pa of None \<Rightarrow> None | Some a \<Rightarrow> suggestions a)"

definition subcommandCandidates ::
  "('b, 'g, 'c, 'i) Imports \<Rightarrow> ('b, 'g) ArgumentParserResult \<Rightarrow> string \<Rightarrow> TerminalContext \<Rightarrow> 'i list" where
  "subcommandCandidates d pa pfx tc =
     staticCandidates d tc pfx Method (Some (ArgsRecord (subcommands (completionObj pa))))"

definition optionCandidates ::
  "('b, 'g, 'c, 'i) Imports \<Rightarrow> ('b, 'g) ArgumentParserResult \<Rightarrow> string \<Rightarrow> TerminalContext \<Rightarrow> 'i list" where
  "optionCandidates d pa pfx tc =
     staticCandidates d tc pfx Flag (Some (ArgsRecord (options (completionObj pa))))"

text \<open>
  Merging a contribution into a result: the disjunction of the flags (\<^verbatim>\<open>||=\<close>) and the
  concatenation of the items (\<^verbatim>\<open>push(...)\<close>).
\<close>

definition mergeResult ::
  "'i IFigSpecSuggestionsResult \<Rightarrow> 'i IFigSpecSuggestionsResult \<Rightarrow> 'i IFigSpecSuggestionsResult" where
  "mergeResult r c =
     \<lparr>filesRequested = (filesRequested r \<or> filesRequested c),
      foldersRequested = (foldersRequested r \<or> foldersRequested c),
      hasCurrentArg = (hasCurrentArg r \<or> hasCurrentArg c),
      items = items r @ items c\<rparr>"





definition mergeAll :: "'i IFigSpecSuggestionsResult list \<Rightarrow> 'i IFigSpecSuggestionsResult" where
  "mergeAll cs =
     \<lparr>filesRequested = list_ex filesRequested cs,
      foldersRequested = list_ex foldersRequested cs,
      hasCurrentArg = list_ex hasCurrentArg cs,
      items = concat (map items cs)\<rparr>"


text \<open>
  What a token may do: be cancelled at every read from the \<open>k\<close>-th on, or give the same
  answer at every read.
\<close>

definition cancelledFrom :: "CancellationToken \<Rightarrow> nat \<Rightarrow> bool" where
  "cancelledFrom t k = (\<forall>n\<ge>k. t n)"

definition unchangedToken :: "CancellationToken option \<Rightarrow> bool" where
  "unchangedToken token = (case token of None \<Rightarrow> True | Some t \<Rightarrow> \<forall>n. t n = t 0)"

definition cancelledAtStart :: "CancellationToken option \<Rightarrow> bool" where
  "cancelledAtStart token = (case token of None \<Rightarrow> False | Some t \<Rightarrow> t 0)"

section \<open>A concrete request\<close>

text \<open>
  An instance of the imported functions and a small request, on which the theorems are
  exercised: completion items are the tuples of the arguments of \<^verbatim>\<open>createCompletionItem\<close>.
\<close>

datatype Item =
  Item int string ICompletionResource "string option" "string option"
    "TerminalCompletionItemKind option"

definition branchesGenerator :: "string Generator" where
  "branchesGenerator = \<lparr>template = None, contract = ''git branch''\<rparr>"

definition filepathsGenerator :: "string Generator" where
  "filepathsGenerator = \<lparr>template = Some (TemplateString ''filepaths''), contract = []\<rparr>"

definition exampleExecute ::
  "(nat, string, string) AutocompleteState \<Rightarrow> string Generator \<Rightarrow> nat FigObject list option" where
  "exampleExecute state g =
     Some [\<lparr>name = NameString ''main'', description = Some (contract g), rest = 0\<rparr>,
           \<lparr>name = NameUndefined, description = None, rest = 0\<rparr>]"

definition exampleParse ::
  "string \<Rightarrow> ShellContext \<Rightarrow> nat FigObject \<Rightarrow> (nat, string) ArgumentParserResult" where
  "exampleParse command shellContext spec =
     (if rest spec = 0
      then \<lparr>completionObj =
              \<lparr>subcommands = [(''commit'', SpecObject \<lparr>name = NameString ''commit'',
                                 description = Some ''Record changes'', rest = 0\<rparr>)],
               options = [(''--help'', SpecString ''help'')]\<rparr>,
            currentArg = None,
            suggestionFlags = 3\<rparr>
      else \<lparr>completionObj = \<lparr>subcommands = [], options = []\<rparr>,
            currentArg = Some \<lparr>generators = Some [branchesGenerator, branchesGenerator],
                               suggestions = Some (ArgsArray [SpecString ''HEAD''])\<rparr>,
            suggestionFlags = 4\<rparr>)"

definition exampleImports :: "(nat, string, string, Item) Imports" where
  "exampleImports =
     \<lparr>osIsWindows = False,
      regExpMatch = (\<lambda>p s. False),
      removeAnyFileExtension = (\<lambda>s. s),
      createCompletionItem = Item,
      getCommand = (\<lambda>line cursor. if line = [] then None else Some line),
      parseArguments = exampleParse,
      execute = exampleExecute,
      SuggestionFlag_Args = 4,
      SuggestionFlag_Subcommands = 1,
      SuggestionFlag_Options = 2\<rparr>"

definition gitSpec :: "nat FigObject" where
  "gitSpec = \<lparr>name = NameString ''git'', description = Some ''Version control'', rest = 0\<rparr>"

definition gitCheckoutSpec :: "nat FigObject" where
  "gitCheckoutSpec = \<lparr>name = NameArray [''git''], description = None, rest = 1\<rparr>"









definition gitContext :: TerminalContext where
  "gitContext = \<lparr>commandLine = ''git '', cursorPosition = 4\<rparr>"

definition gitCommands :: "ICompletionResource list" where
  "gitCommands = [\<lparr>label = ''git'', definitionCommand = None, detail = Some ''/usr/bin/git'',
                   kind = Some Method\<rparr>]"

definition startWorld :: "string World" where
  "startWorld = \<lparr>polls = 0, triggered = []\<rparr>"

definition cancelledLater :: CancellationToken where
  "cancelledLater n = (2 \<le> n)"

definition namedSuggestion :: "nat FigObject" where
  "namedSuggestion = \<lparr>name = NameArray [''main'', ''master''], description = Some ''branch'', rest = 0\<rparr>"

definition namelessSuggestion :: "nat FigObject" where
  "namelessSuggestion = \<lparr>name = NameString [], description = Some ''nothing'', rest = 0\<rparr>"

definition numberedSubcommands :: "nat SpecArg JSObject" where
  "numberedSubcommands = [(''build'', SpecString ''Build the project''), (''1'', SpecString ''First target'')]"

definition twoGeneratorsResult :: "(nat, string) ArgumentParserResult" where
  "twoGeneratorsResult = exampleParse ''git '' (ShellContext [] ''/home'' [] ''bash'') gitCheckoutSpec"

definition pathArgumentResult :: "(nat, string) ArgumentParserResult" where
  "pathArgumentResult =
     \<lparr>completionObj = \<lparr>subcommands = [], options = []\<rparr>,
      currentArg = Some \<lparr>generators = Some [filepathsGenerator, branchesGenerator],
                         suggestions = None\<rparr>,
      suggestionFlags = 4\<rparr>"

definition neverCancelled :: CancellationToken where
  "neverCancelled n = False"

section \<open>The loops compute their closed forms\<close>

subsection \<open>Static sources and generator batches\<close>

lemma pushLabels_eq:
  "pushLabels d tc pfx doc k ls its = its @ labelCandidates d tc pfx doc k ls"
  by (induction ls arbitrary: its) (simp_all add: labelCandidates_def)

lemma arrayLoop_eq:
  "arrayLoop d tc pfx k xs its = its @ concat (map (specArgCandidates d tc pfx k) xs)"
  by (induction xs arbitrary: its)
    (simp_all add: specArgCandidates_def pushLabels_eq split: option.split)

lemma entriesLoop_eq:
  "entriesLoop d tc pfx k es its = its @ map (entryCandidate d tc pfx k) es"
  by (induction es arbitrary: its) (simp_all add: entryCandidate_def)

lemma addStaticSuggestions_eq:
  "addStaticSuggestions d tc pfx k specArgs its = its @ staticCandidates d tc pfx k specArgs"
  by (simp add: addStaticSuggestions_def staticCandidates_def arrayLoop_eq entriesLoop_eq
      split: option.split SpecArgs.split)

lemma suggestionCandidates_step:
  "(if nameIsFalsy (name item) then its
    else (case getFigSuggestionLabel (SpecObject item) of
            None \<Rightarrow> its
          | Some ls \<Rightarrow> pushLabels d tc pfx (description item) k ls its))
   = its @ suggestionCandidates d tc pfx k item"
  by (cases "name item") (simp_all add: suggestionCandidates_def pushLabels_eq labelCandidates_def)

lemma generatorItemsLoop_eq:
  "generatorItemsLoop d tc pfx k xs its = its @ concat (map (suggestionCandidates d tc pfx k) xs)"
proof (induction xs arbitrary: its)
  case Nil
  show ?case by simp
next
  case (Cons item xs)
  show ?case
    unfolding generatorItemsLoop.simps suggestionCandidates_step Cons.IH by simp
qed

lemma generatorResultsLoop_eq:
  "generatorResultsLoop d tc pfx k rs its = its @ concat (map (requestCandidates d tc pfx k) rs)"
  by (induction rs arbitrary: its) (simp_all add: generatorItemsLoop_eq requestCandidates_def)

subsection \<open>The order of Object.entries\<close>

lemma Object_entries_no_index:
  assumes "list_all (\<lambda>kv. \<not> isArrayIndex (fst kv)) obj"
  shows "Object_entries obj = obj"
proof -
  from assms have a: "filter (\<lambda>kv. isArrayIndex (fst kv)) obj = []"
    by (simp add: list_all_iff filter_empty_conv)
  from assms have b: "filter (\<lambda>kv. \<not> isArrayIndex (fst kv)) obj = obj"
    by (simp add: list_all_iff)
  show ?thesis by (simp add: Object_entries_def a b)
qed

lemma length_Object_entries: "length (Object_entries obj) = length obj"
proof -
  have "length (filter (\<lambda>kv. isArrayIndex (fst kv)) obj)
        + length (filter (\<lambda>kv. \<not> isArrayIndex (fst kv)) obj) = length obj"
    by (rule sum_length_filter_compl)
  then show ?thesis by (simp add: Object_entries_def)
qed

lemma set_Object_entries: "set (Object_entries obj) = set obj"
  by (auto simp: Object_entries_def)

subsection \<open>The loop over the generators\<close>

text \<open>Every iteration sets the flags of its own template tags, runs one pass over all the
  generators of the current argument and pushes the candidates of that pass.\<close>

lemma templatesLoop_eq:
  "templatesLoop ts v =
     v\<lparr>filesRequested := filesRequested v \<or> ''filepaths'' \<in> set ts,
       foldersRequested := foldersRequested v \<or> ''folders'' \<in> set ts\<rparr>"
  by (induction ts arbitrary: v) auto

lemma triggerGenerators_eq:
  "triggerGenerators d (AutocompleteState (initialFigState tc cwd env) pa command) pa w =
     (fst (passOutcome d command pa tc cwd env),
      w\<lparr>triggered := triggered w @ [snd (passOutcome d command pa tc cwd env)]\<rparr>)"
  by (simp add: triggerGenerators_def passOutcome_def argGenerators_def split: prod.split)

lemma generatorsLoop_eq:
  "generatorsLoop d command pa pfx tc cwd env k gens v w =
     (v\<lparr>filesRequested := filesRequested v \<or> list_ex (\<lambda>g. ''filepaths'' \<in> set (generatorTemplates g)) gens,
        foldersRequested := foldersRequested v \<or> list_ex (\<lambda>g. ''folders'' \<in> set (generatorTemplates g)) gens,
        itemsArr := itemsArr v @ concat (replicate (length gens) (passCandidates d command pa pfx tc cwd env k))\<rparr>,
      w\<lparr>triggered := triggered w @ replicate (length gens) (snd (passOutcome d command pa tc cwd env))\<rparr>)"
proof (induction gens arbitrary: v w)
  case Nil
  show ?case by simp
next
  case (Cons g gens)
  show ?case
    by (simp add: Cons.IH triggerGenerators_eq templatesLoop_eq generatorResultsLoop_eq
        passCandidates_def)
qed

subsection \<open>collectCompletionItemResult\<close>

text \<open>The definitions to unfold when a concrete request is evaluated.\<close>

lemmas example_defs = exampleImports_def gitSpec_def gitCheckoutSpec_def gitContext_def
  gitCommands_def startWorld_def exampleParse_def exampleExecute_def branchesGenerator_def
  filepathsGenerator_def cancelledLater_def

lemmas model_defs = getFigSuggestions_def specLabelBody_def getFigSpecSuggestions_def
  collectCompletionItemResult_def addSuggestions_def addGeneratorSuggestions_def
  addStaticSuggestions_def triggerGenerators_def isCancellationRequested_def
  findAvailableCommand_def commandAndAliases_def isFirstWord_def definitionOrLabel_def
  flagSet_def labelResource_def emptyResult_def generatorTemplates_def declaresFileTemplate_def
  initialFigState_def convertEnvRecordToArray_def getFixSuggestionDescription_def
  Object_entries_def isArrayIndex_def isDigit_def digitsValue_def

lemma addGeneratorSuggestions_Argument:
  "addGeneratorSuggestions d command pfx tc cwd env Argument (Some pa) v w =
     generatorsLoop d command pa pfx tc cwd env Argument (argGenerators pa) v w"
  by (simp add: addGeneratorSuggestions_def argGenerators_def split: option.split)

lemma addGeneratorSuggestions_other:
  "k \<noteq> Argument \<or> parsedArguments = None \<Longrightarrow>
     addGeneratorSuggestions d command pfx tc cwd env k parsedArguments v w = (v, w)"
  by (auto simp: addGeneratorSuggestions_def)

lemma addSuggestions_Argument:
  "addSuggestions d command pfx tc cwd env specArgs Argument (Some pa) v w =
     (v\<lparr>filesRequested := filesRequested v
            \<or> list_ex (\<lambda>g. ''filepaths'' \<in> set (generatorTemplates g)) (argGenerators pa),
        foldersRequested := foldersRequested v
            \<or> list_ex (\<lambda>g. ''folders'' \<in> set (generatorTemplates g)) (argGenerators pa),
        itemsArr := itemsArr v
            @ concat (replicate (length (argGenerators pa))
                        (passCandidates d command pa pfx tc cwd env Argument))
            @ staticCandidates d tc pfx Argument specArgs\<rparr>,
      w\<lparr>triggered := triggered w
            @ replicate (length (argGenerators pa)) (snd (passOutcome d command pa tc cwd env))\<rparr>)"
  by (simp add: addSuggestions_def addGeneratorSuggestions_Argument generatorsLoop_eq
      addStaticSuggestions_eq)

lemma addSuggestions_static:
  "addSuggestions d command pfx tc cwd env specArgs Method None v w =
     (v\<lparr>itemsArr := itemsArr v @ staticCandidates d tc pfx Method specArgs\<rparr>, w)"
  "addSuggestions d command pfx tc cwd env specArgs Flag None v w =
     (v\<lparr>itemsArr := itemsArr v @ staticCandidates d tc pfx Flag specArgs\<rparr>, w)"
  by (simp_all add: addSuggestions_def addGeneratorSuggestions_other addStaticSuggestions_eq)

lemma collectCompletionItemResult_eq:
  "collectCompletionItemResult d command pa pfx tc cwd env its w =
     (\<lparr>filesRequested = (flagSet (suggestionFlags pa) (SuggestionFlag_Args d)
          \<and> list_ex (\<lambda>g. ''filepaths'' \<in> set (generatorTemplates g)) (argGenerators pa)),
       foldersRequested = (flagSet (suggestionFlags pa) (SuggestionFlag_Args d)
          \<and> list_ex (\<lambda>g. ''folders'' \<in> set (generatorTemplates g)) (argGenerators pa)),
       itemsArr = its
          @ (if flagSet (suggestionFlags pa) (SuggestionFlag_Args d)
             then argumentCandidates d command pa pfx tc cwd env else [])
          @ (if flagSet (suggestionFlags pa) (SuggestionFlag_Subcommands d)
             then subcommandCandidates d pa pfx tc else [])
          @ (if flagSet (suggestionFlags pa) (SuggestionFlag_Options d)
             then optionCandidates d pa pfx tc else [])\<rparr>,
      w\<lparr>triggered := triggered w
          @ (if flagSet (suggestionFlags pa) (SuggestionFlag_Args d)
             then replicate (length (argGenerators pa)) (snd (passOutcome d command pa tc cwd env))
             else [])\<rparr>)"
  by (simp add: collectCompletionItemResult_def addSuggestions_Argument addSuggestions_static
      argumentCandidates_def subcommandCandidates_def optionCandidates_def)

lemma Object_entries_Nil: "Object_entries [] = []"
  by (simp add: Object_entries_def)

subsection \<open>Template generators in a pass\<close>

lemma resolveGenerators_template_not_invoked:
  "declaresFileTemplate g \<Longrightarrow> g \<notin> set (snd (resolveGenerators run gens seen))"
  by (induction gens arbitrary: seen) (auto simp: case_prod_beta)

lemma resolveGenerators_template_not_run:
  "declaresFileTemplate g \<Longrightarrow>
     resolveGenerators (run(g := r)) gens seen = resolveGenerators run gens seen"
  by (induction gens arbitrary: seen) (auto simp: case_prod_beta)

lemma leaf_candidates_execute_update:
  "labelCandidates (d\<lparr>execute := e\<rparr>) = labelCandidates d"
  "entryCandidate (d\<lparr>execute := e\<rparr>) = entryCandidate d"
  by (simp_all add: fun_eq_iff labelCandidates_def entryCandidate_def)

lemma item_candidates_execute_update:
  "specArgCandidates (d\<lparr>execute := e\<rparr>) = specArgCandidates d"
  "suggestionCandidates (d\<lparr>execute := e\<rparr>) = suggestionCandidates d"
  by (simp_all add: fun_eq_iff specArgCandidates_def suggestionCandidates_def
      leaf_candidates_execute_update split: option.split)

lemma candidates_execute_update:
  "staticCandidates (d\<lparr>execute := e\<rparr>) = staticCandidates d"
  "requestCandidates (d\<lparr>execute := e\<rparr>) = requestCandidates d"
  by (simp_all add: fun_eq_iff staticCandidates_def requestCandidates_def
      leaf_candidates_execute_update item_candidates_execute_update
      split: option.split SpecArgs.split)

subsection \<open>The result as a merge of contributions\<close>

lemma mergeResult_empty [simp]: "mergeResult r emptyResult = r"
  by (simp add: mergeResult_def emptyResult_def)

lemma mergeResult_empty_left [simp]: "mergeResult emptyResult r = r"
  by (cases r) (simp add: mergeResult_def emptyResult_def)


lemma mergeAll_Nil [simp]: "mergeAll [] = emptyResult"
  by (simp add: mergeAll_def emptyResult_def)







subsection \<open>A batch in two parts\<close>

lemma specsLoop_append:
  "specsLoop d (xs @ ys) tc availableCommands pfx tokenType cwd env procName precedingText token
       result w =
     specsLoop d ys tc availableCommands pfx tokenType cwd env procName precedingText token
       (fst (specsLoop d xs tc availableCommands pfx tokenType cwd env procName precedingText
               token result w))
       (snd (specsLoop d xs tc availableCommands pfx tokenType cwd env procName precedingText
               token result w))"
  by (induction xs arbitrary: result w) (simp_all add: case_prod_beta split: option.split)

subsection \<open>The token type Command\<close>








subsection \<open>A token that stays cancelled\<close>

lemma specLabelBody_cancelled:
  "cancelledFrom t (polls w) \<Longrightarrow>
     fst (specLabelBody d spec tc availableCommands pfx tokenType cwd env procName precedingText
            (Some t) specLabel result w) = result
     \<and> polls w \<le> polls (snd (specLabelBody d spec tc availableCommands pfx tokenType cwd env
            procName precedingText (Some t) specLabel result w))"
  by (simp add: specLabelBody_def isCancellationRequested_def cancelledFrom_def
      split: option.split)

lemma cancelledFrom_mono: "cancelledFrom t k \<Longrightarrow> k \<le> k' \<Longrightarrow> cancelledFrom t k'"
  by (simp add: cancelledFrom_def)

lemma specLabelsLoop_cancelled:
  "cancelledFrom t (polls w) \<Longrightarrow>
     fst (specLabelsLoop d spec tc availableCommands pfx tokenType cwd env procName precedingText
            (Some t) ls result w) = result
     \<and> polls w \<le> polls (snd (specLabelsLoop d spec tc availableCommands pfx tokenType cwd env
            procName precedingText (Some t) ls result w))"
proof (induction ls arbitrary: w)
  case Nil
  show ?case by simp
next
  case (Cons l ls)
  let ?b = "specLabelBody d spec tc availableCommands pfx tokenType cwd env procName
      precedingText (Some t) l result w"
  from specLabelBody_cancelled [OF Cons.prems]
  have b: "fst ?b = result" and p: "polls w \<le> polls (snd ?b)" by blast+
  from cancelledFrom_mono [OF Cons.prems p] have c: "cancelledFrom t (polls (snd ?b))" .
  from Cons.IH [OF c] b p show ?case by (simp add: case_prod_beta)
qed

lemma specsLoop_cancelled:
  "cancelledFrom t (polls w) \<Longrightarrow>
     fst (specsLoop d specs tc availableCommands pfx tokenType cwd env procName precedingText
            (Some t) result w) = result
     \<and> polls w \<le> polls (snd (specsLoop d specs tc availableCommands pfx tokenType cwd env
            procName precedingText (Some t) result w))"
proof (induction specs arbitrary: w)
  case Nil
  show ?case by simp
next
  case (Cons s ss)
  show ?case
  proof (cases "getFigSuggestionLabel (SpecObject s)")
    case None
    with Cons.IH [OF Cons.prems] show ?thesis by (simp del: getFigSuggestionLabel.simps)
  next
    case (Some ls)
    let ?l = "specLabelsLoop d s tc availableCommands pfx tokenType cwd env procName
        precedingText (Some t) ls result w"
    from specLabelsLoop_cancelled [OF Cons.prems]
    have b: "fst ?l = result" and p: "polls w \<le> polls (snd ?l)" by blast+
    from cancelledFrom_mono [OF Cons.prems p] have c: "cancelledFrom t (polls (snd ?l))" .
    from Cons.IH [OF c] b p Some show ?thesis
      by (simp add: case_prod_beta del: getFigSuggestionLabel.simps)
  qed
qed

lemma getFigSpecSuggestions_cancelled:
  "t (polls w) \<Longrightarrow>
     fst (getFigSpecSuggestions d spec tc pfx cwd env procName (Some t) w) = None"
  by (simp add: getFigSpecSuggestions_def collectCompletionItemResult_eq isCancellationRequested_def
      Let_def split: option.split)

subsection \<open>A token that does not change\<close>

text \<open>The result of every function is then the same from any two worlds.\<close>

lemma poll_unchanged:
  "unchangedToken token \<Longrightarrow> fst (isCancellationRequested token w) = cancelledAtStart token"
  by (cases token)
    (simp_all add: unchangedToken_def isCancellationRequested_def cancelledAtStart_def)

lemma getFigSpecSuggestions_unchanged:
  "unchangedToken token \<Longrightarrow>
     fst (getFigSpecSuggestions d spec tc pfx cwd env procName token w)
       = fst (getFigSpecSuggestions d spec tc pfx cwd env procName token w')"
  by (simp add: getFigSpecSuggestions_def collectCompletionItemResult_eq poll_unchanged
      case_prod_beta Let_def split: option.split)

lemma merge_case_fst:
  "fst (case p of (None, w2) \<Rightarrow> (a, w2) | (Some r, w2) \<Rightarrow> (f r, w2))
     = (case fst p of None \<Rightarrow> a | Some r \<Rightarrow> f r)"
  by (cases p) (simp split: option.split)

lemma specLabelBody_unchanged:
  assumes "unchangedToken token"
  shows "fst (specLabelBody d spec tc availableCommands pfx tokenType cwd env procName
                precedingText token specLabel result w)
       = fst (specLabelBody d spec tc availableCommands pfx tokenType cwd env procName
                precedingText token specLabel result w')"
proof -
  have g: "fst (getFigSpecSuggestions d spec tc pfx cwd env procName token
                  (snd (isCancellationRequested token w)))
         = fst (getFigSpecSuggestions d spec tc pfx cwd env procName token
                  (snd (isCancellationRequested token w')))"
    using assms by (rule getFigSpecSuggestions_unchanged)
  show ?thesis
    using assms
    by (simp add: specLabelBody_def case_prod_beta poll_unchanged merge_case_fst g
        split: option.split)
qed

lemma specLabelsLoop_unchanged:
  assumes "unchangedToken token"
  shows "fst (specLabelsLoop d spec tc availableCommands pfx tokenType cwd env procName
                precedingText token ls result w)
       = fst (specLabelsLoop d spec tc availableCommands pfx tokenType cwd env procName
                precedingText token ls result w')"
proof (induction ls arbitrary: result w w')
  case Nil
  show ?case by simp
next
  case (Cons l ls)
  let ?b = "\<lambda>v. specLabelBody d spec tc availableCommands pfx tokenType cwd env procName
      precedingText token l result v"
  have b: "fst (?b w) = fst (?b w')"
    using assms by (rule specLabelBody_unchanged)
  have "fst (specLabelsLoop d spec tc availableCommands pfx tokenType cwd env procName
                precedingText token ls (fst (?b w)) (snd (?b w)))
      = fst (specLabelsLoop d spec tc availableCommands pfx tokenType cwd env procName
                precedingText token ls (fst (?b w)) (snd (?b w')))"
    by (rule Cons.IH)
  then show ?case by (simp add: case_prod_beta b)
qed

lemma specsLoop_unchanged:
  assumes "unchangedToken token"
  shows "fst (specsLoop d specs tc availableCommands pfx tokenType cwd env procName
                precedingText token result w)
       = fst (specsLoop d specs tc availableCommands pfx tokenType cwd env procName
                precedingText token result w')"
proof (induction specs arbitrary: result w w')
  case Nil
  show ?case by simp
next
  case (Cons s ss)
  show ?case
  proof (cases "getFigSuggestionLabel (SpecObject s)")
    case None
    with Cons.IH [of result w w'] show ?thesis by (simp del: getFigSuggestionLabel.simps)
  next
    case (Some ls)
    let ?l = "\<lambda>v. specLabelsLoop d s tc availableCommands pfx tokenType cwd env procName
        precedingText token ls result v"
    have b: "fst (?l w) = fst (?l w')"
      using assms by (rule specLabelsLoop_unchanged)
    have "fst (specsLoop d ss tc availableCommands pfx tokenType cwd env procName
                  precedingText token (fst (?l w)) (snd (?l w)))
        = fst (specsLoop d ss tc availableCommands pfx tokenType cwd env procName
                  precedingText token (fst (?l w)) (snd (?l w')))"
      by (rule Cons.IH)
    with Some show ?thesis by (simp add: case_prod_beta b del: getFigSuggestionLabel.simps)
  qed
qed

subsection \<open>The contribution of a spec label\<close>




subsection \<open>Imports that never throw\<close>







subsection \<open>An exception in the body of the loop\<close>










section \<open>The claims\<close>

text \<open>
  Claim C1 (each distinct generator definition of the current argument is executed at most
  once; two identical definitions execute once combined). The code does not do this.
  When the Args bit is set, \<^verbatim>\<open>collectCompletionItemResult\<close> calls
  \<^verbatim>\<open>triggerGenerators(parsedArguments)\<close> inside \<^verbatim>\<open>for (const generator of generators)\<close>,
  so once per entry of the generator list, and every call resolves all the generators of
  the current argument again: the log grows by one pass per entry. For the argument with
  the generator \<open>branchesGenerator\<close> declared twice, the contract of that generator runs
  twice and its candidate \<open>main\<close> is pushed twice.
\<close>

theorem identical_generators_run_twice:
  "triggered (snd (collectCompletionItemResult d command pa pfx tc cwd env its w))
     = triggered w
       @ (if flagSet (suggestionFlags pa) (SuggestionFlag_Args d)
          then replicate (length (argGenerators pa)) (snd (passOutcome d command pa tc cwd env))
          else [])
   \<and> argGenerators twoGeneratorsResult = [branchesGenerator, branchesGenerator]
   \<and> triggered (snd (collectCompletionItemResult exampleImports ''git '' twoGeneratorsResult []
        gitContext (Some (Uri ''/home'')) [] [] startWorld))
       = [[branchesGenerator], [branchesGenerator]]
   \<and> count_list (concat (triggered (snd (collectCompletionItemResult exampleImports ''git ''
        twoGeneratorsResult [] gitContext (Some (Uri ''/home'')) [] [] startWorld))))
        branchesGenerator = 2
   \<and> itemsArr (fst (collectCompletionItemResult exampleImports ''git '' twoGeneratorsResult []
        gitContext (Some (Uri ''/home'')) [] [] startWorld))
       = [Item 4 [] (labelResource ''main'') None (Some ''git branch'') (Some Argument),
          Item 4 [] (labelResource ''main'') None (Some ''git branch'') (Some Argument),
          Item 4 [] (labelResource ''HEAD'') None (Some ''HEAD'') (Some Argument)]"
proof -
  have general: "triggered (snd (collectCompletionItemResult d command pa pfx tc cwd env its w))
     = triggered w
       @ (if flagSet (suggestionFlags pa) (SuggestionFlag_Args d)
          then replicate (length (argGenerators pa)) (snd (passOutcome d command pa tc cwd env))
          else [])"
    by (simp add: collectCompletionItemResult_eq)
  have concrete: "collectCompletionItemResult exampleImports ''git '' twoGeneratorsResult []
        gitContext (Some (Uri ''/home'')) [] [] startWorld
     = (\<lparr>filesRequested = False, foldersRequested = False,
         itemsArr =
           [Item 4 [] (labelResource ''main'') None (Some ''git branch'') (Some Argument),
            Item 4 [] (labelResource ''main'') None (Some ''git branch'') (Some Argument),
            Item 4 [] (labelResource ''HEAD'') None (Some ''HEAD'') (Some Argument)]\<rparr>,
        \<lparr>polls = 0, triggered = [[branchesGenerator], [branchesGenerator]]\<rparr>)"
    by (simp add: twoGeneratorsResult_def example_defs model_defs)
  have gens: "argGenerators twoGeneratorsResult = [branchesGenerator, branchesGenerator]"
    by (simp add: twoGeneratorsResult_def exampleParse_def gitCheckoutSpec_def argGenerators_def)
  show ?thesis
    unfolding concrete by (simp add: general gens)
qed

text \<open>
  Claim C2: when argument suggestions are resolved (the Args bit is set), a generator \<open>g\<close> of
  the current argument whose template holds "filepaths" sets \<open>filesRequested\<close> on the result,
  and one whose template holds "folders" sets \<open>foldersRequested\<close>. Such a generator
  contributes no candidates of its own: its execution contract is never invoked in a pass,
  and the whole outcome stays the same whatever batch that contract would return. (The
  last part rests on \<open>triggerGenerators\<close> as modelled from the specification.)
\<close>

theorem file_template_sets_flag:
  "flagSet (suggestionFlags pa) (SuggestionFlag_Args d) \<Longrightarrow> g \<in> set (argGenerators pa) \<Longrightarrow>
     (''filepaths'' \<in> set (generatorTemplates g)
        \<longrightarrow> filesRequested (fst (collectCompletionItemResult d command pa pfx tc cwd env its w)))
     \<and> (''folders'' \<in> set (generatorTemplates g)
        \<longrightarrow> foldersRequested (fst (collectCompletionItemResult d command pa pfx tc cwd env its w)))
     \<and> (declaresFileTemplate g
        \<longrightarrow> g \<notin> set (snd (passOutcome d command pa tc cwd env))
          \<and> collectCompletionItemResult (d\<lparr>execute := \<lambda>state. (execute d state)(g := batch)\<rparr>)
                command pa pfx tc cwd env its w
              = collectCompletionItemResult d command pa pfx tc cwd env its w)"
proof -
  assume args: "flagSet (suggestionFlags pa) (SuggestionFlag_Args d)" and g: "g \<in> set (argGenerators pa)"
  let ?d' = "d\<lparr>execute := \<lambda>state. (execute d state)(g := batch)\<rparr>"
  have flags: "''filepaths'' \<in> set (generatorTemplates g)
      \<longrightarrow> filesRequested (fst (collectCompletionItemResult d command pa pfx tc cwd env its w))"
    "''folders'' \<in> set (generatorTemplates g)
      \<longrightarrow> foldersRequested (fst (collectCompletionItemResult d command pa pfx tc cwd env its w))"
    using args g by (auto simp: collectCompletionItemResult_eq list_ex_iff)
  have indep: "collectCompletionItemResult ?d' command pa pfx tc cwd env its w
      = collectCompletionItemResult d command pa pfx tc cwd env its w"
    and notrun: "g \<notin> set (snd (passOutcome d command pa tc cwd env))"
    if t: "declaresFileTemplate g"
  proof -
    have p: "passOutcome ?d' command pa tc cwd env = passOutcome d command pa tc cwd env"
      by (simp add: passOutcome_def resolveGenerators_template_not_run [OF t])
    show "g \<notin> set (snd (passOutcome d command pa tc cwd env))"
      by (simp add: passOutcome_def resolveGenerators_template_not_invoked [OF t])
    show "collectCompletionItemResult ?d' command pa pfx tc cwd env its w
      = collectCompletionItemResult d command pa pfx tc cwd env its w"
      by (simp add: collectCompletionItemResult_eq p argumentCandidates_def passCandidates_def
          subcommandCandidates_def optionCandidates_def candidates_execute_update)
  qed
  from flags indep notrun show ?thesis by blast
qed

text \<open>
  The theorem of C2 at the argument with a "filepaths" generator followed by a script
  generator.
\<close>

theorem file_template_sets_flag_witness:
  "flagSet (suggestionFlags pathArgumentResult) (SuggestionFlag_Args exampleImports)
   \<and> filepathsGenerator \<in> set (argGenerators pathArgumentResult)
   \<and> ''filepaths'' \<in> set (generatorTemplates filepathsGenerator)
   \<and> declaresFileTemplate filepathsGenerator
   \<and> filesRequested (fst (collectCompletionItemResult exampleImports ''git '' pathArgumentResult []
        gitContext (Some (Uri ''/home'')) [] [] startWorld))
   \<and> filepathsGenerator \<notin> set (snd (passOutcome exampleImports ''git '' pathArgumentResult
        gitContext (Some (Uri ''/home'')) []))"
  using file_template_sets_flag [of pathArgumentResult exampleImports filepathsGenerator "''git ''" "[]"
      gitContext "Some (Uri ''/home'')" "[]" "[]" startWorld None]
  by (simp add: pathArgumentResult_def exampleImports_def filepathsGenerator_def
      branchesGenerator_def flagSet_def argGenerators_def generatorTemplates_def
      declaresFileTemplate_def)

text \<open>
  Claim C3, as amended. The token is read once per spec label that matches an available
  command (before anything is done for the label) and once after the collection for a spec.
  If the token is cancelled at every read from the start of the request on, the result is
  empty. More generally, if it is cancelled at every read after the specs \<open>earlier\<close> have been
  processed, the specs \<open>later\<close> add nothing: the result is the one of \<open>earlier\<close> alone, with
  what they had pushed. And when the read after a collection finds the token cancelled,
  \<^verbatim>\<open>getFigSpecSuggestions\<close> returns \<^verbatim>\<open>undefined\<close>, dropping all the items of that spec.
\<close>

theorem cancelled_labels_contribute_nothing:
  "(cancelledFrom t (polls w)
      \<longrightarrow> fst (getFigSuggestions d specs tc availableCommands pfx tokenType cwd env procName
                 precedingText (Some t) w) = emptyResult)
   \<and> (cancelledFrom t (polls (snd (getFigSuggestions d earlier tc availableCommands pfx tokenType
                                      cwd env procName precedingText (Some t) w)))
      \<longrightarrow> fst (getFigSuggestions d (earlier @ later) tc availableCommands pfx tokenType cwd env
                 procName precedingText (Some t) w)
          = fst (getFigSuggestions d earlier tc availableCommands pfx tokenType cwd env procName
                   precedingText (Some t) w))
   \<and> (t (polls w)
      \<longrightarrow> fst (getFigSpecSuggestions d spec tc pfx cwd env procName (Some t) w) = None)"
  by (simp add: getFigSuggestions_def specsLoop_cancelled specsLoop_append
      getFigSpecSuggestions_cancelled)

text \<open>
  The theorem of C3 at the request of two specs for \<open>git\<close> and a token cancelled from its
  third read on: the second spec adds nothing to the two candidates of the first.
\<close>

theorem cancelled_labels_contribute_nothing_witness:
  "cancelledFrom cancelledLater
     (polls (snd (getFigSuggestions exampleImports [gitSpec] gitContext gitCommands []
        TokenArgument (Some (Uri ''/home'')) [] ''bash'' ''git '' (Some cancelledLater) startWorld)))
   \<and> fst (getFigSuggestions exampleImports ([gitSpec] @ [gitCheckoutSpec]) gitContext gitCommands []
        TokenArgument (Some (Uri ''/home'')) [] ''bash'' ''git '' (Some cancelledLater) startWorld)
     = fst (getFigSuggestions exampleImports [gitSpec] gitContext gitCommands []
        TokenArgument (Some (Uri ''/home'')) [] ''bash'' ''git '' (Some cancelledLater) startWorld)
   \<and> items (fst (getFigSuggestions exampleImports [gitSpec] gitContext gitCommands []
        TokenArgument (Some (Uri ''/home'')) [] ''bash'' ''git '' (Some cancelledLater) startWorld))
     = [Item 4 [] (labelResource ''commit'') None (Some ''Record changes'') (Some Method),
        Item 4 [] (labelResource ''--help'') None (Some ''help'') (Some Flag)]"
proof -
  have h: "cancelledFrom cancelledLater
     (polls (snd (getFigSuggestions exampleImports [gitSpec] gitContext gitCommands []
        TokenArgument (Some (Uri ''/home'')) [] ''bash'' ''git '' (Some cancelledLater) startWorld)))"
    by (simp add: example_defs model_defs cancelledFrom_def)
  have i: "items (fst (getFigSuggestions exampleImports [gitSpec] gitContext gitCommands []
        TokenArgument (Some (Uri ''/home'')) [] ''bash'' ''git '' (Some cancelledLater) startWorld))
     = [Item 4 [] (labelResource ''commit'') None (Some ''Record changes'') (Some Method),
        Item 4 [] (labelResource ''--help'') None (Some ''help'') (Some Flag)]"
    by (simp add: example_defs model_defs)
  from cancelled_labels_contribute_nothing [of cancelledLater startWorld exampleImports "[]"
      gitContext gitCommands "[]" TokenArgument "Some (Uri ''/home'')" "[]" "''bash''" "''git ''"
      "[gitSpec]" "[gitCheckoutSpec]" gitSpec] h i
  show ?thesis by blast
qed

text \<open>
  Claim C3 as stated fails: a token that is cancelled from its third read on is cancelled
  before any generator has been dispatched (the log stays empty), and yet the request
  returns two of the five candidates it returns when it is not cancelled.
\<close>

theorem later_cancellation_keeps_earlier_items:
  "cancelledLater 2
   \<and> getFigSuggestions exampleImports [gitSpec, gitCheckoutSpec] gitContext gitCommands []
        TokenArgument (Some (Uri ''/home'')) [] ''bash'' ''git '' (Some cancelledLater) startWorld
     = (\<lparr>filesRequested = False, foldersRequested = False, hasCurrentArg = False,
         items = [Item 4 [] (labelResource ''commit'') None (Some ''Record changes'') (Some Method),
                  Item 4 [] (labelResource ''--help'') None (Some ''help'') (Some Flag)]\<rparr>,
        \<lparr>polls = 3, triggered = []\<rparr>)
   \<and> items (fst (getFigSuggestions exampleImports [gitSpec, gitCheckoutSpec] gitContext
        gitCommands [] TokenArgument (Some (Uri ''/home'')) [] ''bash'' ''git '' None startWorld))
     = [Item 4 [] (labelResource ''commit'') None (Some ''Record changes'') (Some Method),
        Item 4 [] (labelResource ''--help'') None (Some ''help'') (Some Flag),
        Item 4 [] (labelResource ''main'') None (Some ''git branch'') (Some Argument),
        Item 4 [] (labelResource ''main'') None (Some ''git branch'') (Some Argument),
        Item 4 [] (labelResource ''HEAD'') None (Some ''HEAD'') (Some Argument)]"
  by (simp add: example_defs model_defs)

text \<open>
  Claim C4: the items \<^verbatim>\<open>collectCompletionItemResult\<close> pushes are, in this order, the
  argument candidates (generator candidates, then the static suggestions of the current
  argument) when the Args bit is set, the subcommand candidates when the Subcommands bit is
  set, and the option candidates when the Options bit is set.
\<close>

theorem candidates_in_fixed_order:
  "itemsArr (fst (collectCompletionItemResult d command pa pfx tc cwd env its w)) =
     its
     @ (if flagSet (suggestionFlags pa) (SuggestionFlag_Args d)
        then argumentCandidates d command pa pfx tc cwd env else [])
     @ (if flagSet (suggestionFlags pa) (SuggestionFlag_Subcommands d)
        then subcommandCandidates d pa pfx tc else [])
     @ (if flagSet (suggestionFlags pa) (SuggestionFlag_Options d)
        then optionCandidates d pa pfx tc else [])"
  by (simp add: collectCompletionItemResult_eq)




text \<open>
  Claim C6: an item of a generator batch without a usable name (\<^verbatim>\<open>undefined\<close>, the empty
  string or an empty array) pushes nothing, and the items before and after it in the batch,
  and the batches before and after, are processed as if it were not there.
\<close>

theorem nameless_generator_item_discarded:
  "\<not> usableName (name item) \<Longrightarrow>
     generatorItemsLoop d tc pfx k [item] its = its
     \<and> generatorResultsLoop d tc pfx k (earlier @ Some (xs @ item # ys) # later) its
         = generatorResultsLoop d tc pfx k (earlier @ Some (xs @ ys) # later) its"
  by (simp add: generatorResultsLoop_eq generatorItemsLoop_eq requestCandidates_def
      suggestionCandidates_def)

text \<open>
  The theorem of C6 at a batch of an item named by the empty string and an item with two
  aliases.
\<close>

theorem nameless_generator_item_discarded_witness:
  "\<not> usableName (name namelessSuggestion)
   \<and> generatorItemsLoop exampleImports gitContext [] Argument [namelessSuggestion] [] = []
   \<and> generatorResultsLoop exampleImports gitContext [] Argument
         [Some [namelessSuggestion, namedSuggestion]] []
       = [Item 4 [] (labelResource ''main'') None (Some ''branch'') (Some Argument),
          Item 4 [] (labelResource ''master'') None (Some ''branch'') (Some Argument)]"
  using nameless_generator_item_discarded [of namelessSuggestion exampleImports gitContext "[]"
      Argument "[]" "[]" "[]" "[namedSuggestion]" "[]"]
  by (simp add: namelessSuggestion_def namedSuggestion_def exampleImports_def gitContext_def)

text \<open>
  Claim C7, as amended. An array source pushes, for every item, one candidate per label of
  the item, so one per alias for a name that is an array. A keyed mapping pushes one
  candidate per key, in the order of \<^verbatim>\<open>Object.entries\<close>: the keys that are array indices
  first, in ascending numeric order, then the other keys in insertion order; this is the
  insertion order when no key is an array index. A missing source, an empty array, an empty
  mapping and an item without name push nothing.
\<close>

theorem static_sources_expand:
  "addStaticSuggestions d tc pfx k (Some (ArgsArray xs)) its
     = its @ concat (map (specArgCandidates d tc pfx k) xs)
   \<and> specArgCandidates d tc pfx k (SpecObject \<lparr>name = NameArray aliases, description = doc, rest = r\<rparr>)
     = map (\<lambda>alias. createCompletionItem d (cursorPosition tc) pfx (labelResource alias) None doc (Some k))
         aliases
   \<and> addStaticSuggestions d tc pfx k (Some (ArgsRecord obj)) its
     = its @ map (entryCandidate d tc pfx k) (Object_entries obj)
   \<and> length (Object_entries obj) = length obj
   \<and> (list_all (\<lambda>entry. \<not> isArrayIndex (fst entry)) obj \<longrightarrow> Object_entries obj = obj)
   \<and> addStaticSuggestions d tc pfx k None its = its
   \<and> addStaticSuggestions d tc pfx k (Some (ArgsArray [])) its = its
   \<and> addStaticSuggestions d tc pfx k (Some (ArgsRecord [])) its = its
   \<and> specArgCandidates d tc pfx k (SpecObject \<lparr>name = NameUndefined, description = doc, rest = r\<rparr>) = []"
  by (simp add: addStaticSuggestions_eq staticCandidates_def length_Object_entries
      Object_entries_no_index specArgCandidates_def labelCandidates_def Object_entries_Nil)

text \<open>
  The theorem of C7 at a mapping with the keys \<open>commit\<close> and \<open>add\<close>.
\<close>

theorem static_sources_expand_witness:
  "list_all (\<lambda>entry. \<not> isArrayIndex (fst entry)) [(''commit'', SpecString ''c''), (''add'', SpecString ''a'')]
   \<and> Object_entries [(''commit'', SpecString ''c''), (''add'', SpecString ''a'')]
       = [(''commit'', SpecString ''c''), (''add'', SpecString ''a'')]
   \<and> addStaticSuggestions exampleImports gitContext [] Method
         (Some (ArgsRecord [(''commit'', SpecString ''c''), (''add'', SpecString ''a'')])) []
       = [Item 4 [] (labelResource ''commit'') None (Some ''c'') (Some Method),
          Item 4 [] (labelResource ''add'') None (Some ''a'') (Some Method)]"
  using static_sources_expand [of exampleImports gitContext "[]" Method "[]" "[]" "[]" None 0
      "[(''commit'', SpecString ''c''), (''add'', SpecString ''a'')]"]
  by (simp add: isArrayIndex_def isDigit_def digitsValue_def Object_entries_def
      addStaticSuggestions_def exampleImports_def gitContext_def)

text \<open>
  Claim C7 as stated fails for a mapping with a key that is an array index: the key \<open>1\<close>,
  declared after \<open>build\<close>, gives the first candidate.
\<close>

theorem record_source_not_in_insertion_order:
  "map fst numberedSubcommands = [''build'', ''1'']
   \<and> addStaticSuggestions exampleImports gitContext [] Method (Some (ArgsRecord numberedSubcommands)) []
       = [Item 4 [] (labelResource ''1'') None (Some ''First target'') (Some Method),
          Item 4 [] (labelResource ''build'') None (Some ''Build the project'') (Some Method)]"
  by (simp add: numberedSubcommands_def addStaticSuggestions_def Object_entries_def
      isArrayIndex_def isDigit_def digitsValue_def exampleImports_def gitContext_def)

text \<open>
  Claim C8: when the token does not change, a second call of \<^verbatim>\<open>getFigSuggestions\<close> with the
  same arguments, made after the first has returned, gives the same result: the same items
  in the same order and the same three flags.
\<close>

theorem repeated_request_same_result:
  "unchangedToken token \<Longrightarrow>
     fst (getFigSuggestions d specs tc availableCommands pfx tokenType cwd env procName
            precedingText token
            (snd (getFigSuggestions d specs tc availableCommands pfx tokenType cwd env procName
                    precedingText token w)))
     = fst (getFigSuggestions d specs tc availableCommands pfx tokenType cwd env procName
              precedingText token w)"
  unfolding getFigSuggestions_def by (rule specsLoop_unchanged)

text \<open>
  The theorem of C8 at the request of two specs for \<open>git\<close>, with a token that is never
  cancelled; the first call reads the token four times and runs two generator passes.
\<close>

theorem repeated_request_same_result_witness:
  "unchangedToken (Some neverCancelled)
   \<and> fst (getFigSuggestions exampleImports [gitSpec, gitCheckoutSpec] gitContext gitCommands []
        TokenArgument (Some (Uri ''/home'')) [] ''bash'' ''git '' (Some neverCancelled)
        (snd (getFigSuggestions exampleImports [gitSpec, gitCheckoutSpec] gitContext gitCommands []
           TokenArgument (Some (Uri ''/home'')) [] ''bash'' ''git '' (Some neverCancelled)
           startWorld)))
     = fst (getFigSuggestions exampleImports [gitSpec, gitCheckoutSpec] gitContext gitCommands []
        TokenArgument (Some (Uri ''/home'')) [] ''bash'' ''git '' (Some neverCancelled)
        startWorld)
   \<and> snd (getFigSuggestions exampleImports [gitSpec, gitCheckoutSpec] gitContext gitCommands []
        TokenArgument (Some (Uri ''/home'')) [] ''bash'' ''git '' (Some neverCancelled)
        startWorld)
     = \<lparr>polls = 4, triggered = [[branchesGenerator], [branchesGenerator]]\<rparr>"
proof -
  have h: "unchangedToken (Some neverCancelled)"
    by (simp add: unchangedToken_def neverCancelled_def)
  have s: "snd (getFigSuggestions exampleImports [gitSpec, gitCheckoutSpec] gitContext gitCommands []
        TokenArgument (Some (Uri ''/home'')) [] ''bash'' ''git '' (Some neverCancelled)
        startWorld)
     = \<lparr>polls = 4, triggered = [[branchesGenerator], [branchesGenerator]]\<rparr>"
    by (simp add: example_defs model_defs neverCancelled_def)
  from repeated_request_same_result [OF h] h s show ?thesis by blast
qed

text \<open>
  Claim C9, as amended: for a token type other than Command, a spec label contributes
  nothing (the result is unchanged: no items, no flags) and no generator runs, unless the
  preceding text starts with the label of a command whose definition command (or label) is
  the spec label, followed by a space; on Windows the file extensions are removed first.
\<close>

theorem not_first_word_contributes_nothing:
  "tokenType \<noteq> TokenCommand \<Longrightarrow>
   \<not> isFirstWord d (commandAndAliases d availableCommands specLabel) precedingText \<Longrightarrow>
     fst (specLabelBody d spec tc availableCommands pfx tokenType cwd env procName
            precedingText token specLabel result w) = result
     \<and> triggered (snd (specLabelBody d spec tc availableCommands pfx tokenType cwd env procName
            precedingText token specLabel result w)) = triggered w"
  by (simp add: specLabelBody_def isCancellationRequested_def split: option.split)

text \<open>
  The theorem of C9 at the preceding text \<open>gi\<close> for the spec \<open>git\<close>.
\<close>

theorem not_first_word_contributes_nothing_witness:
  "TokenArgument \<noteq> TokenCommand
   \<and> \<not> isFirstWord exampleImports (commandAndAliases exampleImports gitCommands ''git'') ''gi''
   \<and> fst (specLabelBody exampleImports gitSpec gitContext gitCommands ''gi'' TokenArgument
            (Some (Uri ''/home'')) [] ''bash'' ''gi'' None ''git'' emptyResult startWorld)
       = emptyResult"
  using not_first_word_contributes_nothing [of TokenArgument exampleImports gitCommands "''git''"
      "''gi''" gitSpec gitContext "''gi''" "Some (Uri ''/home'')" "[]" "''bash''" None
      emptyResult startWorld]
  by (simp add: example_defs model_defs)

text \<open>
  Claim C9 as stated fails for the token type Command: the preceding text \<open>gi\<close> does not
  start with \<open>git\<close> and a space, and the spec contributes the candidate \<open>git\<close>.
\<close>

theorem command_token_ignores_preceding_text:
  "\<not> isFirstWord exampleImports (commandAndAliases exampleImports gitCommands ''git'') ''gi''
   \<and> fst (specLabelBody exampleImports gitSpec gitContext gitCommands ''gi'' TokenCommand
            (Some (Uri ''/home'')) [] ''bash'' ''gi'' None ''git'' emptyResult startWorld)
       = \<lparr>filesRequested = False, foldersRequested = False, hasCurrentArg = False,
          items = [Item 4 ''gi'' (labelResource ''git'') (Some ''Version control'')
                     (Some ''/usr/bin/git'') None]\<rparr>"
  by (simp add: example_defs model_defs)


end
